theory Spec2Isabelle
  imports Complex_Main
begin

section \<open>Numbers, errors and the environment\<close>

text \<open>
  The Python code computes with floats. They are modelled as \<^typ>\<open>real\<close>: rounding,
  overflow to infinity and NaN are outside the model, except where a function is given
  a second definition on doubles, with the rounding of each operation written out.
  Every division of the source whose divisor can be zero is a branch that raises
  \<open>ZeroDivisionError\<close>, as Python does on its own numbers. (On a NumPy scalar a division
  by zero gives infinity or NaN with a warning instead; these values are outside the
  reals, and the model is of calls on Python numbers.)

  A method that mutates its object and may raise is modelled with an outcome that keeps
  the state of the object at the moment of return or of the raise, because assignments
  made before a raise stay visible to the caller.
\<close>

datatype py_error = ZeroDivisionError | ValueError string

datatype 's outcome = Done 's | Raised py_error 's

fun state_of :: "'s outcome \<Rightarrow> 's" where
  "state_of (Done s) = s"
| "state_of (Raised e s) = s"

fun raised :: "'s outcome \<Rightarrow> py_error option" where
  "raised (Done s) = None"
| "raised (Raised e s) = Some e"

text \<open>
  \<open>datetime.now()\<close> and \<open>np.random.normal\<close> read the world. A call receives the
  readings it will see as streams: \<open>clk i\<close> is the i-th clock reading of the call and
  \<open>rnd i\<close> its i-th normal draw. A datetime is a count of microseconds.
\<close>

type_synonym datetime = nat

text \<open>Python's \<open>round(x, 2)\<close>: to two decimals, ties to the even neighbour.\<close>

definition py_round2 :: "real \<Rightarrow> real" where
  "py_round2 x =
     (let y = x * 100; f = \<lfloor>y\<rfloor>; d = y - of_int f
      in of_int (if d < 1 / 2 then f else if 1 / 2 < d then f + 1
                 else if even f then f else f + 1) / 100)"

section \<open>Sensor\<close>

record Sensor =
  sensor_id :: string
  sensor_type :: string
  location :: string
  unit :: string
  sensor_value :: real
  timestamp :: datetime
  status :: string
  calibration_factor :: real

definition Sensor_init :: "string \<Rightarrow> string \<Rightarrow> string \<Rightarrow> string \<Rightarrow> datetime \<Rightarrow> Sensor" where
  "Sensor_init sid stype loc u now =
     \<lparr>sensor_id = sid, sensor_type = stype, location = loc, unit = u, sensor_value = 0,
      timestamp = now, status = ''active'', calibration_factor = 1\<rparr>"

definition sensor_update :: "Sensor \<Rightarrow> real \<Rightarrow> datetime \<Rightarrow> Sensor" where
  "sensor_update s v now = s\<lparr>sensor_value := v, timestamp := now\<rparr>"

text \<open>The degree sign and the superscript two of the unit strings, as UTF-8 bytes.\<close>

definition deg_C :: string where
  "deg_C = [CHR 0xC2, CHR 0xB0, CHR ''C'']"

definition m_per_s2 :: string where
  "m_per_s2 = ''m/s'' @ [CHR 0xC2, CHR 0xB2]"

text \<open>Python's \<open>str(i)\<close> for the small indices of the sensor names.\<close>

definition digit_str :: "nat \<Rightarrow> string" where
  "digit_str i = [char_of (48 + i)]"

section \<open>ElectricMotor\<close>

record ElectricMotor =
  max_power_kw :: real
  max_torque_nm :: real
  current_rpm :: real
  current_torque_nm :: real
  current_power_kw :: real
  temperature_c :: real
  efficiency :: real
  total_runtime_hours :: real
  health_score :: real
  temp_sensor :: Sensor
  torque_sensor :: Sensor
  rpm_sensor :: Sensor

definition ElectricMotor_init :: "real \<Rightarrow> real \<Rightarrow> (nat \<Rightarrow> datetime) \<Rightarrow> ElectricMotor" where
  "ElectricMotor_init max_power max_torque clk =
     \<lparr>max_power_kw = max_power, max_torque_nm = max_torque, current_rpm = 0,
      current_torque_nm = 0, current_power_kw = 0, temperature_c = 25,
      efficiency = 0.95, total_runtime_hours = 0, health_score = 100,
      temp_sensor = Sensor_init ''motor_temp'' ''temperature'' ''motor_housing'' deg_C (clk 0),
      torque_sensor = Sensor_init ''motor_torque'' ''torque'' ''motor_shaft'' ''Nm'' (clk 1),
      rpm_sensor = Sensor_init ''motor_rpm'' ''speed'' ''motor_shaft'' ''RPM'' (clk 2)\<rparr>"

definition apply_load :: "ElectricMotor \<Rightarrow> real \<Rightarrow> real \<Rightarrow> (nat \<Rightarrow> datetime) \<Rightarrow> ElectricMotor" where
  "apply_load m requested_torque rpm clk =
     (let torque = min requested_torque (max_torque_nm m);
          omega = rpm * 2 * pi / 60;
          power0 = (torque * omega / 1000) * efficiency m;
          power = min power0 (max_power_kw m);
          heat_generated = power * (1 - efficiency m);
          temp1 = temperature_c m + heat_generated * 0.1;
          cooling_rate = (temp1 - 25) * 0.05;
          temp2 = temp1 - cooling_rate
      in m\<lparr>current_torque_nm := torque,
           current_rpm := rpm,
           current_power_kw := power,
           temperature_c := temp2,
           temp_sensor := sensor_update (temp_sensor m) temp2 (clk 0),
           torque_sensor := sensor_update (torque_sensor m) torque (clk 1),
           rpm_sensor := sensor_update (rpm_sensor m) rpm (clk 2),
           health_score := (if 120 < temp2 then health_score m - 0.001 else health_score m)\<rparr>)"

record motor_status =
  ms_power_kw :: real
  ms_torque_nm :: real
  ms_rpm :: real
  ms_temperature_c :: real
  ms_efficiency :: real
  ms_health_score :: real

text \<open>
  The read methods are modelled in the state-passing style too: they return their result
  together with the object as they leave it.
\<close>

definition motor_get_status :: "ElectricMotor \<Rightarrow> motor_status \<times> ElectricMotor" where
  "motor_get_status m =
     (\<lparr>ms_power_kw = py_round2 (current_power_kw m),
       ms_torque_nm = py_round2 (current_torque_nm m),
       ms_rpm = py_round2 (current_rpm m),
       ms_temperature_c = py_round2 (temperature_c m),
       ms_efficiency = efficiency m,
       ms_health_score = py_round2 (health_score m)\<rparr>, m)"

section \<open>BatteryPack\<close>

record BatteryPack =
  capacity_kwh :: real
  nominal_voltage :: real
  current_charge_kwh :: real
  current_voltage :: real
  current_amperage :: real
  pack_temperature_c :: real
  health_soh :: real
  cycle_count :: int
  cells_series :: int
  cells_parallel :: int
  cell_voltages :: "Sensor list"
  temp_sensors :: "Sensor list"

definition BatteryPack_init :: "real \<Rightarrow> real \<Rightarrow> (nat \<Rightarrow> datetime) \<Rightarrow> BatteryPack" where
  "BatteryPack_init capacity nominal clk =
     \<lparr>capacity_kwh = capacity, nominal_voltage = nominal,
      current_charge_kwh = capacity * 0.8, current_voltage = nominal,
      current_amperage = 0, pack_temperature_c = 25, health_soh = 100,
      cycle_count = 0, cells_series = 96, cells_parallel = 4,
      cell_voltages =
        map (\<lambda>i. Sensor_init (''cell_'' @ digit_str i @ ''_voltage'') ''voltage''
                     (''cell_'' @ digit_str i) ''V'' (clk i)) [0..<10],
      temp_sensors =
        map (\<lambda>i. Sensor_init (''battery_temp_'' @ digit_str i) ''temperature''
                     (''pack_'' @ digit_str i) deg_C (clk (10 + i))) [0..<4]\<rparr>"

definition efficiency_discharge :: "BatteryPack \<Rightarrow> real" where
  "efficiency_discharge b =
     (let temp_factor = (if 20 \<le> pack_temperature_c b \<and> pack_temperature_c b \<le> 40
                         then 1 else 0.95)
      in 0.95 * temp_factor)"

definition efficiency_charge :: "BatteryPack \<Rightarrow> real" where
  "efficiency_charge b = 0.92"

text \<open>\<open>get_soc\<close> divides by the capacity; the caller checks that it is not zero.\<close>

definition get_soc :: "BatteryPack \<Rightarrow> real" where
  "get_soc b = current_charge_kwh b / capacity_kwh b"

text \<open>
  The two sensor loops of \<open>discharge\<close>: the i-th sensor of a list is updated at the
  i-th clock reading and with the i-th draw that the loop sees.
\<close>

definition update_sensors :: "Sensor list \<Rightarrow> real \<Rightarrow> (nat \<Rightarrow> datetime) \<Rightarrow> (nat \<Rightarrow> real) \<Rightarrow> Sensor list" where
  "update_sensors ss v clk rnd =
     map (\<lambda>(i, s). sensor_update s (v + rnd i) (clk i)) (zip [0..<length ss] ss)"

text \<open>
  \<open>discharge\<close>, for a power that is a Python number. The division by the voltage comes
  after the charge is assigned and uses the voltage as the pack holds it.
\<close>

definition discharge ::
  "BatteryPack \<Rightarrow> real \<Rightarrow> real \<Rightarrow> (nat \<Rightarrow> datetime) \<Rightarrow> (nat \<Rightarrow> real) \<Rightarrow> BatteryPack outcome" where
  "discharge b power_kw time_step_hours clk rnd =
     (let energy_consumed = power_kw * time_step_hours;
          b1 = b\<lparr>current_charge_kwh :=
                   max 0 (current_charge_kwh b - energy_consumed / efficiency_discharge b)\<rparr>
      in if current_voltage b1 = 0 then Raised ZeroDivisionError b1
         else
           let b2 = b1\<lparr>current_amperage := (power_kw * 1000) / current_voltage b1\<rparr>
           in if capacity_kwh b2 = 0 then Raised ZeroDivisionError b2
              else
                let b3 = b2\<lparr>current_voltage := nominal_voltage b2 * get_soc b2\<rparr>;
                    heat = power_kw * (1 - efficiency_discharge b3) * 0.5;
                    temp1 = pack_temperature_c b3 + heat;
                    temp2 = temp1 - (temp1 - 25) * 0.1;
                    b4 = b3\<lparr>pack_temperature_c := temp2\<rparr>;
                    n = length (cell_voltages b4)
                in if cell_voltages b4 \<noteq> [] \<and> cells_series b4 = 0
                   then Raised ZeroDivisionError b4
                   else
                     let cell_voltage = current_voltage b4 / of_int (cells_series b4);
                         b5 = b4\<lparr>cell_voltages :=
                                   update_sensors (cell_voltages b4) cell_voltage clk rnd\<rparr>;
                         avg_temp = pack_temperature_c b5
                     in Done (b5\<lparr>temp_sensors :=
                                  update_sensors (temp_sensors b5) avg_temp
                                    (\<lambda>i. clk (n + i)) (\<lambda>i. rnd (n + i))\<rparr>))"

definition charge :: "BatteryPack \<Rightarrow> real \<Rightarrow> real \<Rightarrow> BatteryPack outcome" where
  "charge b power_kw time_step_hours =
     (let energy_added = power_kw * time_step_hours * efficiency_charge b;
          b1 = b\<lparr>current_charge_kwh :=
                   min (capacity_kwh b) (current_charge_kwh b + energy_added)\<rparr>
      in if current_voltage b1 = 0 then Raised ZeroDivisionError b1
         else Done (b1\<lparr>current_amperage := - (power_kw * 1000) / current_voltage b1\<rparr>))"

record battery_status =
  bs_soc_percent :: real
  bs_charge_kwh :: real
  bs_voltage :: real
  bs_current_a :: real
  bs_temperature_c :: real
  bs_health_soh :: real
  bs_cycle_count :: int

definition battery_get_status :: "BatteryPack \<Rightarrow> (py_error + battery_status) \<times> BatteryPack" where
  "battery_get_status b =
     (if capacity_kwh b = 0 then (Inl ZeroDivisionError, b)
      else (Inr \<lparr>bs_soc_percent = py_round2 (get_soc b * 100),
                  bs_charge_kwh = py_round2 (current_charge_kwh b),
                  bs_voltage = py_round2 (current_voltage b),
                  bs_current_a = py_round2 (current_amperage b),
                  bs_temperature_c = py_round2 (pack_temperature_c b),
                  bs_health_soh = py_round2 (health_soh b),
                  bs_cycle_count = cycle_count b\<rparr>, b))"

text \<open>
  A caller of the battery: one call of \<open>discharge\<close> or \<open>charge\<close> with its arguments.
  \<open>battery_trace\<close> lists the states of the pack after each call of a sequence; a call that
  raises leaves the pack as it was at the raise, and the sequence goes on from there.
\<close>

datatype battery_call =
  Discharge real real "nat \<Rightarrow> datetime" "nat \<Rightarrow> real"
| Charge real real

fun do_call :: "BatteryPack \<Rightarrow> battery_call \<Rightarrow> BatteryPack outcome" where
  "do_call b (Discharge p t clk rnd) = discharge b p t clk rnd"
| "do_call b (Charge p t) = charge b p t"

fun nonneg_call :: "battery_call \<Rightarrow> bool" where
  "nonneg_call (Discharge p t clk rnd) = (0 \<le> p \<and> 0 \<le> t)"
| "nonneg_call (Charge p t) = (0 \<le> p \<and> 0 \<le> t)"

fun battery_trace :: "BatteryPack \<Rightarrow> battery_call list \<Rightarrow> BatteryPack list" where
  "battery_trace b [] = []"
| "battery_trace b (c # cs) =
     (let b' = state_of (do_call b c) in b' # battery_trace b' cs)"

definition charge_in_range :: "BatteryPack \<Rightarrow> bool" where
  "charge_in_range b = (0 \<le> current_charge_kwh b \<and> current_charge_kwh b \<le> capacity_kwh b)"

section \<open>VehicleDynamics\<close>

record VehicleDynamics =
  mass_kg :: real
  velocity_mps :: real
  acceleration_mps2 :: real
  position_m :: real
  drag_coefficient :: real
  frontal_area_m2 :: real
  rolling_resistance :: real
  brake_force_n :: real
  speed_sensor :: Sensor
  accel_sensor :: Sensor
  position_sensor :: Sensor

definition VehicleDynamics_init :: "real \<Rightarrow> (nat \<Rightarrow> datetime) \<Rightarrow> VehicleDynamics" where
  "VehicleDynamics_init mass clk =
     \<lparr>mass_kg = mass, velocity_mps = 0, acceleration_mps2 = 0, position_m = 0,
      drag_coefficient = 0.28, frontal_area_m2 = 2.3, rolling_resistance = 0.015,
      brake_force_n = 0,
      speed_sensor = Sensor_init ''vehicle_speed'' ''speed'' ''wheel'' ''km/h'' (clk 0),
      accel_sensor = Sensor_init ''acceleration'' ''acceleration'' ''chassis'' m_per_s2 (clk 1),
      position_sensor = Sensor_init ''gps_position'' ''position'' ''roof'' ''m'' (clk 2)\<rparr>"

text \<open>
  \<open>update\<close> divides the net force by the mass before it assigns anything, so a zero mass
  raises with the object untouched.
\<close>

definition update_dynamics ::
  "VehicleDynamics \<Rightarrow> real \<Rightarrow> real \<Rightarrow> real \<Rightarrow> (nat \<Rightarrow> datetime) \<Rightarrow> VehicleDynamics outcome" where
  "update_dynamics d motor_torque_nm time_step_s gear_ratio clk =
     (let wheel_radius_m = 0.35;
          drive_force_n = (motor_torque_nm * gear_ratio) / wheel_radius_m;
          air_density = 1.225;
          drag_force_n = 0.5 * air_density * drag_coefficient d * frontal_area_m2 d
                           * (velocity_mps d)\<^sup>2;
          rolling_force_n = rolling_resistance d * mass_kg d * 9.81;
          net_force_n = drive_force_n - drag_force_n - rolling_force_n - brake_force_n d
      in if mass_kg d = 0 then Raised ZeroDivisionError d
         else
           let acc = net_force_n / mass_kg d;
               v = max 0 (velocity_mps d + acc * time_step_s);
               x = position_m d + v * time_step_s
           in Done (d\<lparr>acceleration_mps2 := acc,
                       velocity_mps := v,
                       position_m := x,
                       speed_sensor := sensor_update (speed_sensor d) (v * 3.6) (clk 0),
                       accel_sensor := sensor_update (accel_sensor d) acc (clk 1),
                       position_sensor := sensor_update (position_sensor d) x (clk 2)\<rparr>))"

definition apply_brakes :: "VehicleDynamics \<Rightarrow> real \<Rightarrow> VehicleDynamics" where
  "apply_brakes d brake_percentage =
     (let max_brake_force = mass_kg d * 9.81 * 0.8
      in d\<lparr>brake_force_n := max_brake_force * (brake_percentage / 100)\<rparr>)"

record vehicle_status =
  vs_speed_kmh :: real
  vs_acceleration_mps2 :: real
  vs_position_km :: real
  vs_brake_force_n :: real

definition dynamics_get_status :: "VehicleDynamics \<Rightarrow> vehicle_status \<times> VehicleDynamics" where
  "dynamics_get_status d =
     (\<lparr>vs_speed_kmh = py_round2 (velocity_mps d * 3.6),
       vs_acceleration_mps2 = py_round2 (acceleration_mps2 d),
       vs_position_km = py_round2 (position_m d / 1000),
       vs_brake_force_n = py_round2 (brake_force_n d)\<rparr>, d)"

section \<open>DigitalTwin\<close>

text \<open>
  The configuration dictionary, with the five entries the constructor reads.
\<close>

record config =
  cfg_max_power_kw :: real
  cfg_max_torque_nm :: real
  cfg_capacity_kwh :: real
  cfg_voltage_nominal :: real
  cfg_weight_kg :: real

record TelemetrySnapshot =
  snap_timestamp :: datetime
  snap_simulation_time :: real
  snap_motor :: motor_status
  snap_battery :: battery_status
  snap_vehicle :: vehicle_status

record DigitalTwin =
  twin_config :: config
  motor :: ElectricMotor
  battery :: BatteryPack
  dynamics :: VehicleDynamics
  simulation_time :: real
  telemetry_log :: "TelemetrySnapshot list"

text \<open>
  The readings of one \<open>step\<close>: each subsystem sees its own clock, and the battery its
  own draws. \<open>init_env\<close> is the same for the constructor.
\<close>

record step_env =
  motor_clock :: "nat \<Rightarrow> datetime"
  battery_clock :: "nat \<Rightarrow> datetime"
  battery_noise :: "nat \<Rightarrow> real"
  dynamics_clock :: "nat \<Rightarrow> datetime"

definition DigitalTwin_init :: "config \<Rightarrow> step_env \<Rightarrow> DigitalTwin" where
  "DigitalTwin_init cfg env =
     \<lparr>twin_config = cfg,
      motor = ElectricMotor_init (cfg_max_power_kw cfg) (cfg_max_torque_nm cfg) (motor_clock env),
      battery = BatteryPack_init (cfg_capacity_kwh cfg) (cfg_voltage_nominal cfg)
                  (battery_clock env),
      dynamics = VehicleDynamics_init (cfg_weight_kg cfg) (dynamics_clock env),
      simulation_time = 0,
      telemetry_log = []\<rparr>"

definition step :: "DigitalTwin \<Rightarrow> real \<Rightarrow> real \<Rightarrow> real \<Rightarrow> step_env \<Rightarrow> DigitalTwin outcome" where
  "step tw throttle_percent brake_percent time_step_s env =
     (let max_torque = max_torque_nm (motor tw);
          requested_torque = max_torque * (throttle_percent / 100);
          gear_ratio = 10;
          wheel_radius = 0.35;
          motor_rpm = (velocity_mps (dynamics tw) / wheel_radius) * gear_ratio
                        * (60 / (2 * pi));
          tw1 = tw\<lparr>motor := apply_load (motor tw) requested_torque motor_rpm (motor_clock env)\<rparr>
      in case (if 0 < current_power_kw (motor tw1)
               then discharge (battery tw1) (current_power_kw (motor tw1)) (time_step_s / 3600)
                      (battery_clock env) (battery_noise env)
               else Done (battery tw1)) of
           Raised e b \<Rightarrow> Raised e (tw1\<lparr>battery := b\<rparr>)
         | Done b \<Rightarrow>
             let tw2 = tw1\<lparr>battery := b\<rparr>;
                 tw3 = tw2\<lparr>dynamics := apply_brakes (dynamics tw2) brake_percent\<rparr>
             in case update_dynamics (dynamics tw3) (current_torque_nm (motor tw3)) time_step_s
                       gear_ratio (dynamics_clock env) of
                  Raised e d \<Rightarrow> Raised e (tw3\<lparr>dynamics := d\<rparr>)
                | Done d \<Rightarrow>
                    Done (tw3\<lparr>dynamics := d,
                              simulation_time := simulation_time tw3 + time_step_s\<rparr>))"

text \<open>
  \<open>get_telemetry\<close> reads the clock, then the three status dictionaries; the battery's
  can raise (its state of charge divides by the capacity). The timestamp is the clock
  reading itself: \<open>isoformat\<close> is one-to-one on datetimes.
\<close>

definition get_telemetry ::
  "DigitalTwin \<Rightarrow> datetime \<Rightarrow> (py_error + TelemetrySnapshot) \<times> DigitalTwin" where
  "get_telemetry tw now =
     (let (ms, m) = motor_get_status (motor tw);
          tw1 = tw\<lparr>motor := m\<rparr>;
          (rb, b) = battery_get_status (battery tw1);
          tw2 = tw1\<lparr>battery := b\<rparr>
      in case rb of
           Inl e \<Rightarrow> (Inl e, tw2)
         | Inr bs \<Rightarrow>
             let (vs, d) = dynamics_get_status (dynamics tw2);
                 tw3 = tw2\<lparr>dynamics := d\<rparr>
             in (Inr \<lparr>snap_timestamp = now,
                      snap_simulation_time = py_round2 (simulation_time tw3),
                      snap_motor = ms, snap_battery = bs, snap_vehicle = vs\<rparr>, tw3))"

definition log_telemetry :: "DigitalTwin \<Rightarrow> datetime \<Rightarrow> DigitalTwin outcome" where
  "log_telemetry tw now =
     (case get_telemetry tw now of
        (Inl e, tw') \<Rightarrow> Raised e tw'
      | (Inr snap, tw') \<Rightarrow> Done (tw'\<lparr>telemetry_log := telemetry_log tw' @ [snap]\<rparr>))"

section \<open>Driving scenarios\<close>

text \<open>
  The four subclasses of \<open>DrivingScenario\<close>. An object carries its name, its duration
  and its class, which selects the \<open>get_control_inputs\<close> that runs.
\<close>

datatype scenario_class = Urban | Highway | Aggressive | Eco

record DrivingScenario =
  name :: string
  duration_s :: real
  scenario_class :: scenario_class

definition UrbanDrivingScenario :: DrivingScenario where
  "UrbanDrivingScenario = \<lparr>name = ''Urban Driving'', duration_s = 600, scenario_class = Urban\<rparr>"

definition HighwayDrivingScenario :: DrivingScenario where
  "HighwayDrivingScenario =
     \<lparr>name = ''Highway Driving'', duration_s = 1800, scenario_class = Highway\<rparr>"

definition AggressiveDrivingScenario :: DrivingScenario where
  "AggressiveDrivingScenario =
     \<lparr>name = ''Aggressive Driving'', duration_s = 300, scenario_class = Aggressive\<rparr>"

definition EcoModeScenario :: DrivingScenario where
  "EcoModeScenario = \<lparr>name = ''Eco Mode'', duration_s = 900, scenario_class = Eco\<rparr>"

text \<open>
  Python's \<open>x % y\<close> on floats, for a positive \<open>y\<close>: the remainder has the sign of \<open>y\<close>.
  The cycle lengths it is used with are the constants 60, 30 and 90.
\<close>

definition py_mod :: "real \<Rightarrow> real \<Rightarrow> real" where
  "py_mod x y = x - y * of_int \<lfloor>x / y\<rfloor>"

definition urban_control_inputs :: "real \<Rightarrow> real \<times> real" where
  "urban_control_inputs time =
     (let cycle_time = 60;
          t = py_mod time cycle_time
      in if t < 20 then (min (40 + t * 2) 60, 0)
         else if t < 30 then (30, 0)
         else if t < 40 then (0, 20 + (t - 30) * 3)
         else (0, 50))"

text \<open>
  In the cruise phase \<open>np.sin\<close> returns a NumPy float, and so are the numbers computed
  from that throttle; NumPy divides by zero to infinity with a warning where Python
  raises. The model is over the reals and raises there as well.
\<close>

definition highway_control_inputs :: "DrivingScenario \<Rightarrow> real \<Rightarrow> real \<times> real" where
  "highway_control_inputs self time =
     (if time < 60 then (min (70 + time) 100, 0)
      else if duration_s self - 120 < time then (30, 20)
      else (45 + sin (time * 0.1) * 5, 0))"

definition aggressive_control_inputs :: "real \<Rightarrow> real \<times> real" where
  "aggressive_control_inputs time =
     (let cycle_time = 30;
          t = py_mod time cycle_time
      in if t < 10 then (100, 0)
         else if t < 15 then (0, 0)
         else if t < 20 then (0, 80)
         else (0, 50))"

definition eco_control_inputs :: "real \<Rightarrow> real \<times> real" where
  "eco_control_inputs time =
     (let cycle_time = 90;
          t = py_mod time cycle_time
      in if t < 30 then (min (20 + t * 0.8) 40, 0)
         else if t < 60 then (35, 0)
         else (max (35 - (t - 60) * 1.2) 0, 10))"

definition get_control_inputs :: "DrivingScenario \<Rightarrow> real \<Rightarrow> real \<times> real" where
  "get_control_inputs self time =
     (case scenario_class self of
        Urban \<Rightarrow> urban_control_inputs time
      | Highway \<Rightarrow> highway_control_inputs self time
      | Aggressive \<Rightarrow> aggressive_control_inputs time
      | Eco \<Rightarrow> eco_control_inputs time)"

section \<open>SimulationEngine\<close>

record SimulationEngine =
  digital_twin :: DigitalTwin
  time_step :: real
  scenarios :: "string \<rightharpoonup> DrivingScenario"

definition SimulationEngine_init :: "DigitalTwin \<Rightarrow> real \<Rightarrow> SimulationEngine" where
  "SimulationEngine_init tw ts =
     \<lparr>digital_twin = tw, time_step = ts,
      scenarios = [''urban'' \<mapsto> UrbanDrivingScenario,
                   ''highway'' \<mapsto> HighwayDrivingScenario,
                   ''aggressive'' \<mapsto> AggressiveDrivingScenario,
                   ''eco'' \<mapsto> EcoModeScenario]\<rparr>"

text \<open>Python's \<open>int(x)\<close> on a float: truncation towards zero.\<close>

definition py_int :: "real \<Rightarrow> int" where
  "py_int x = (if 0 \<le> x then \<lfloor>x\<rfloor> else \<lceil>x\<rceil>)"

text \<open>
  The readings of one iteration of the loop of \<open>run_scenario\<close>: those of the step, the
  clock of \<open>log_telemetry\<close> and the clock of the \<open>get_telemetry\<close> of the progress line.
\<close>

record loop_env =
  step_readings :: step_env
  log_clock :: datetime
  progress_clock :: datetime

text \<open>
  One iteration, on the twin and the local \<open>log_counter\<close>. Console output is not
  modelled; the \<open>get_telemetry\<close> call that feeds the progress line is, since it can raise.
\<close>

definition run_iteration ::
  "DrivingScenario \<Rightarrow> real \<Rightarrow> int \<Rightarrow> loop_env \<Rightarrow> nat \<Rightarrow> DigitalTwin \<times> int
     \<Rightarrow> (DigitalTwin \<times> int) outcome" where
  "run_iteration scenario ts log_interval env k s =
     (let (tw, log_counter) = s;
          current_time = real k * ts;
          (throttle, brake) = get_control_inputs scenario current_time
      in case step tw throttle brake ts (step_readings env) of
           Raised e tw1 \<Rightarrow> Raised e (tw1, log_counter)
         | Done tw1 \<Rightarrow>
             let log_counter1 = log_counter + 1
             in case (if log_interval \<le> log_counter1
                      then (case log_telemetry tw1 (log_clock env) of
                              Raised e tw2 \<Rightarrow> Raised e (tw2, log_counter1)
                            | Done tw2 \<Rightarrow> Done (tw2, 0))
                      else Done (tw1, log_counter1)) of
                  Raised e s2 \<Rightarrow> Raised e s2
                | Done (tw2, log_counter2) \<Rightarrow>
                    if k mod 100 = 0
                    then (case get_telemetry tw2 (progress_clock env) of
                            (Inl e, tw3) \<Rightarrow> Raised e (tw3, log_counter2)
                          | (Inr telemetry, tw3) \<Rightarrow> Done (tw3, log_counter2))
                    else Done (tw2, log_counter2))"

fun run_steps :: "(nat \<Rightarrow> 's \<Rightarrow> 's outcome) \<Rightarrow> nat list \<Rightarrow> 's \<Rightarrow> 's outcome" where
  "run_steps body [] s = Done s"
| "run_steps body (k # ks) s =
     (case body k s of
        Raised e s' \<Rightarrow> Raised e s'
      | Done s' \<Rightarrow> run_steps body ks s')"

text \<open>
  \<open>run_scenario\<close>. The specification's \<open>UnknownScenario\<close> is the \<open>ValueError\<close> with the
  message \<open>Unknown scenario: \<close> followed by the name. The engine refers to its twin,
  which the steps mutate in place. The summary printed at the end only reads the log
  (and returns at once when the log is empty); it changes nothing and is not modelled.
\<close>

definition run_scenario ::
  "SimulationEngine \<Rightarrow> string \<Rightarrow> int \<Rightarrow> (nat \<Rightarrow> loop_env) \<Rightarrow> SimulationEngine outcome" where
  "run_scenario eng scenario_name log_interval envs =
     (case scenarios eng scenario_name of
        None \<Rightarrow> Raised (ValueError (''Unknown scenario: '' @ scenario_name)) eng
      | Some scenario \<Rightarrow>
          if time_step eng = 0 then Raised ZeroDivisionError eng
          else
            let steps = py_int (duration_s scenario / time_step eng)
            in case run_steps
                      (\<lambda>k. run_iteration scenario (time_step eng) log_interval (envs k) k)
                      [0..<nat steps] (digital_twin eng, 0) of
                 Raised e (tw, log_counter) \<Rightarrow> Raised e (eng\<lparr>digital_twin := tw\<rparr>)
               | Done (tw, log_counter) \<Rightarrow> Done (eng\<lparr>digital_twin := tw\<rparr>))"

section \<open>The Urban control inputs on doubles\<close>








text \<open>Concrete inputs for evaluation: a clock that always reads 0 and draws that are 0.\<close>

definition epoch_clock :: "nat \<Rightarrow> datetime" where
  "epoch_clock i = 0"

definition no_noise :: "nat \<Rightarrow> real" where
  "no_noise i = 0"

text \<open>
  The configuration of the specification's end-to-end example, and an environment whose
  clocks read 0 and whose draws are 0.
\<close>

definition spec_config :: config where
  "spec_config = \<lparr>cfg_max_power_kw = 150, cfg_max_torque_nm = 310, cfg_capacity_kwh = 75,
                   cfg_voltage_nominal = 400, cfg_weight_kg = 1800\<rparr>"


definition epoch_env :: step_env where
  "epoch_env = \<lparr>motor_clock = epoch_clock, battery_clock = epoch_clock,
                 battery_noise = no_noise, dynamics_clock = epoch_clock\<rparr>"


definition epoch_loop_env :: "nat \<Rightarrow> loop_env" where
  "epoch_loop_env k = \<lparr>step_readings = epoch_env, log_clock = 0, progress_clock = 0\<rparr>"




section \<open>The motor's limits\<close>

text \<open>
  Claim C2, as stated, asks for \<open>0 \<le> current_torque_nm\<close> after \<open>apply_load\<close> for every
  requested torque. \<open>apply_load\<close> limits the torque from above only, so a negative
  request stays negative: on a fresh motor, a request of -5 Nm leaves a torque below 0.
\<close>

theorem apply_load_negative_torque_counterexample:
  "\<not> 0 \<le> current_torque_nm
            (apply_load (ElectricMotor_init 150 310 epoch_clock) (- 5) 0 epoch_clock)"
  by (simp add: apply_load_def ElectricMotor_init_def Let_def)

text \<open>
  Claim C2, amended: for every requested torque and every rpm, after \<open>apply_load\<close> the
  torque is the minimum of the request and \<open>max_torque_nm\<close>, so it never exceeds
  \<open>max_torque_nm\<close>, the power never exceeds \<open>max_power_kw\<close>, and the torque is
  non-negative when the request and \<open>max_torque_nm\<close> are non-negative.
\<close>

theorem apply_load_limits:
  "current_torque_nm (apply_load m requested_torque rpm clk)
     = min requested_torque (max_torque_nm m)
   \<and> max_torque_nm (apply_load m requested_torque rpm clk) = max_torque_nm m
   \<and> max_power_kw (apply_load m requested_torque rpm clk) = max_power_kw m
   \<and> current_torque_nm (apply_load m requested_torque rpm clk) \<le> max_torque_nm m
   \<and> current_power_kw (apply_load m requested_torque rpm clk) \<le> max_power_kw m
   \<and> (0 \<le> requested_torque \<and> 0 \<le> max_torque_nm m
        \<longrightarrow> 0 \<le> current_torque_nm (apply_load m requested_torque rpm clk))"
  by (simp add: apply_load_def Let_def)

theorem apply_load_limits_witness:
  "current_torque_nm
     (apply_load (ElectricMotor_init 150 310 epoch_clock) 500 1000 epoch_clock) = 310
   \<and> 0 \<le> current_torque_nm
            (apply_load (ElectricMotor_init 150 310 epoch_clock) 500 1000 epoch_clock)
   \<and> current_power_kw
       (apply_load (ElectricMotor_init 150 310 epoch_clock) 500 1000 epoch_clock) \<le> 150"
  using apply_load_limits [of "ElectricMotor_init 150 310 epoch_clock" 500 1000 epoch_clock]
  by (simp add: ElectricMotor_init_def)

section \<open>The battery's charge\<close>

lemma efficiency_discharge_pos: "0 < efficiency_discharge b"
  by (simp add: efficiency_discharge_def)

lemma discharge_charge_in_range:
  assumes "charge_in_range b" "0 \<le> p" "0 \<le> t"
  shows "charge_in_range (state_of (discharge b p t clk rnd))"
proof -
  have "0 \<le> p * t / efficiency_discharge b"
    using assms efficiency_discharge_pos [of b] by simp
  then show ?thesis
    using assms(1) by (auto simp: discharge_def charge_in_range_def Let_def)
qed

lemma charge_charge_in_range:
  assumes "charge_in_range b" "0 \<le> p" "0 \<le> t"
  shows "charge_in_range (state_of (charge b p t))"
proof -
  have "0 \<le> p * t * efficiency_charge b"
    using assms by (simp add: efficiency_charge_def)
  then show ?thesis
    using assms(1) by (auto simp: charge_def charge_in_range_def Let_def)
qed

lemma do_call_in_range:
  "charge_in_range b \<Longrightarrow> nonneg_call c \<Longrightarrow> charge_in_range (state_of (do_call b c))"
  by (cases c) (simp_all add: discharge_charge_in_range charge_charge_in_range)

text \<open>
  Claim C1: from a pack with \<open>0 \<le> current_charge_kwh \<le> capacity_kwh\<close>, after each call
  of any sequence of \<open>discharge\<close> and \<open>charge\<close> calls with non-negative power and time
  step, \<open>current_charge_kwh\<close> is within \<open>[0, capacity_kwh]\<close>. The calls that raise are
  included: the charge they leave behind is in range as well.
\<close>

theorem battery_charge_invariant:
  assumes "0 \<le> current_charge_kwh b" "current_charge_kwh b \<le> capacity_kwh b"
    and "\<forall>c \<in> set cs. nonneg_call c"
  shows "\<forall>s \<in> set (battery_trace b cs).
           0 \<le> current_charge_kwh s \<and> current_charge_kwh s \<le> capacity_kwh s"
proof -
  have "charge_in_range b \<Longrightarrow> \<forall>c \<in> set cs. nonneg_call c \<Longrightarrow>
        \<forall>s \<in> set (battery_trace b cs). charge_in_range s"
  proof (induction cs arbitrary: b)
    case Nil
    then show ?case by simp
  next
    case (Cons c cs)
    have "charge_in_range (state_of (do_call b c))"
      using Cons.prems by (simp add: do_call_in_range)
    with Cons show ?case by (simp add: Let_def)
  qed
  with assms show ?thesis by (simp add: charge_in_range_def)
qed

theorem battery_charge_invariant_witness:
  "list_all (\<lambda>s. 0 \<le> current_charge_kwh s \<and> current_charge_kwh s \<le> capacity_kwh s)
     (battery_trace (BatteryPack_init 75 400 epoch_clock)
        [Discharge 150 1 epoch_clock no_noise, Charge 500 1])"
  using battery_charge_invariant [of "BatteryPack_init 75 400 epoch_clock"
      "[Discharge 150 1 epoch_clock no_noise, Charge 500 1]"]
  by (simp add: BatteryPack_init_def list_all_iff)

section \<open>The division by the voltage\<close>

text \<open>
  Claim C4, as stated, says that \<open>discharge\<close> floors the voltage to a positive epsilon and
  so never divides by zero. There is no floor: one discharge that empties a fresh pack
  sets the voltage to \<open>nominal_voltage * 0 = 0\<close>, and the next discharge raises
  \<open>ZeroDivisionError\<close>.
\<close>

theorem discharge_zero_voltage_counterexample:
  "current_voltage
     (state_of (discharge (BatteryPack_init 75 400 epoch_clock) 150 1 epoch_clock no_noise)) = 0
   \<and> raised (discharge
               (state_of (discharge (BatteryPack_init 75 400 epoch_clock) 150 1
                            epoch_clock no_noise))
               150 1 epoch_clock no_noise) = Some ZeroDivisionError"
  by (simp add: discharge_def BatteryPack_init_def efficiency_discharge_def get_soc_def Let_def)

text \<open>
  Claim C4, amended: \<open>discharge\<close> applies no floor to the voltage: it divides
  \<open>power_kw * 1000\<close> by the voltage the pack holds before the call, whatever its value.
  For a pack with non-zero capacity, cell count and voltage the call completes and
  \<open>current_amperage\<close> is the plain quotient, however small the voltage is.
\<close>

theorem discharge_divides_by_stored_voltage:
  assumes "capacity_kwh b \<noteq> 0" and "cells_series b \<noteq> 0" and "current_voltage b \<noteq> 0"
  shows "raised (discharge b power_kw time_step_hours clk rnd) = None
       \<and> current_amperage (state_of (discharge b power_kw time_step_hours clk rnd))
           = (power_kw * 1000) / current_voltage b"
  using assms by (simp add: discharge_def Let_def)

theorem discharge_divides_by_stored_voltage_witness:
  "raised (discharge (BatteryPack_init 75 400 epoch_clock) 150 1 epoch_clock no_noise) = None
   \<and> current_amperage
       (state_of (discharge (BatteryPack_init 75 400 epoch_clock) 150 1 epoch_clock no_noise))
     = 375"
  using discharge_divides_by_stored_voltage
          [of "BatteryPack_init 75 400 epoch_clock" 150 1 epoch_clock no_noise]
  by (simp add: BatteryPack_init_def)

section \<open>What charging leaves alone\<close>

text \<open>
  Claim C10: \<open>charge\<close> changes only \<open>current_charge_kwh\<close> and \<open>current_amperage\<close>. For
  every power and time step, the pack after the call (completed or raised) is the pack
  before it with new values in these two fields; the voltage, the temperature, the state
  of health, the cycle count and every cell voltage and temperature sensor are as before.
\<close>

theorem charge_frame:
  "(\<exists>c a. state_of (charge b power_kw time_step_hours)
            = b\<lparr>current_charge_kwh := c, current_amperage := a\<rparr>)
   \<and> current_voltage (state_of (charge b power_kw time_step_hours)) = current_voltage b
   \<and> pack_temperature_c (state_of (charge b power_kw time_step_hours)) = pack_temperature_c b
   \<and> health_soh (state_of (charge b power_kw time_step_hours)) = health_soh b
   \<and> cycle_count (state_of (charge b power_kw time_step_hours)) = cycle_count b
   \<and> cell_voltages (state_of (charge b power_kw time_step_hours)) = cell_voltages b
   \<and> temp_sensors (state_of (charge b power_kw time_step_hours)) = temp_sensors b"
proof -
  let ?b1 = "b\<lparr>current_charge_kwh :=
                 min (capacity_kwh b)
                   (current_charge_kwh b + power_kw * time_step_hours * efficiency_charge b)\<rparr>"
  have "?b1 = b\<lparr>current_charge_kwh := current_charge_kwh ?b1,
                 current_amperage := current_amperage b\<rparr>"
    by simp
  then have "\<exists>c a. ?b1 = b\<lparr>current_charge_kwh := c, current_amperage := a\<rparr>"
    by blast
  moreover have "\<exists>c a. ?b1\<lparr>current_amperage := x\<rparr>
                   = b\<lparr>current_charge_kwh := c, current_amperage := a\<rparr>" for x
    by blast
  ultimately show ?thesis
    by (simp add: charge_def Let_def)
qed

section \<open>Velocity and position\<close>

text \<open>
  Claim C3: for every motor torque, every gear ratio, every positive time step and every
  state with a non-negative velocity, after \<open>update\<close> the velocity is non-negative and
  the position is not less than before. (When the mass is 0 the call raises before it
  assigns, and velocity and position are as before.)
\<close>

theorem update_dynamics_velocity_position:
  assumes "0 < time_step_s" and "0 \<le> velocity_mps d"
  shows "0 \<le> velocity_mps
                (state_of (update_dynamics d motor_torque_nm time_step_s gear_ratio clk))
       \<and> position_m d
           \<le> position_m
                (state_of (update_dynamics d motor_torque_nm time_step_s gear_ratio clk))"
  using assms by (simp add: update_dynamics_def Let_def)

theorem update_dynamics_velocity_position_witness:
  "0 \<le> velocity_mps
          (state_of (update_dynamics (VehicleDynamics_init 1800 epoch_clock) 310 0.1 10
                       epoch_clock))
   \<and> 0 \<le> position_m
            (state_of (update_dynamics (VehicleDynamics_init 1800 epoch_clock) 310 0.1 10
                         epoch_clock))"
  using update_dynamics_velocity_position
          [of "0.1" "VehicleDynamics_init 1800 epoch_clock" 310 10 epoch_clock]
  by (simp add: VehicleDynamics_init_def)

section \<open>The control inputs of a step\<close>




lemma discharge_error: "discharge b p t clk rnd = Raised e s \<Longrightarrow> e = ZeroDivisionError"
  by (auto simp: discharge_def Let_def split: if_splits)

lemma update_dynamics_error:
  "update_dynamics d q t g clk = Raised e s \<Longrightarrow> e = ZeroDivisionError"
  by (auto simp: update_dynamics_def Let_def split: if_splits)

lemma step_error: "step tw thr br dt env = Raised e s \<Longrightarrow> e = ZeroDivisionError"
  unfolding step_def Let_def
  by (auto split: outcome.splits if_splits dest: discharge_error update_dynamics_error)





section \<open>Reading the status\<close>

text \<open>
  Claim C6, as stated, says that repeated calls of \<open>get_telemetry\<close> return identical
  values. The snapshot carries the clock reading of the call as its timestamp, so two
  calls at different clock readings return different snapshots.
\<close>

theorem get_telemetry_timestamp_counterexample:
  "fst (get_telemetry (DigitalTwin_init spec_config epoch_env) 0)
     \<noteq> fst (get_telemetry (snd (get_telemetry (DigitalTwin_init spec_config epoch_env) 0)) 1)"
  by (simp add: get_telemetry_def motor_get_status_def battery_get_status_def
        dynamics_get_status_def DigitalTwin_init_def BatteryPack_init_def spec_config_def
        Let_def)

text \<open>
  Claim C6, amended: \<open>get_status\<close> of the motor, the battery and the dynamics, and
  \<open>get_telemetry\<close>, leave the state as it is; a repeated \<open>get_status\<close> returns the same
  value; a repeated \<open>get_telemetry\<close> returns the same result except for the timestamp,
  which is the clock reading of each call, and the same result when the clock reads the
  same.
\<close>

theorem reads_are_pure:
  "snd (motor_get_status m) = m
   \<and> fst (motor_get_status (snd (motor_get_status m))) = fst (motor_get_status m)
   \<and> snd (battery_get_status b) = b
   \<and> fst (battery_get_status (snd (battery_get_status b))) = fst (battery_get_status b)
   \<and> snd (dynamics_get_status d) = d
   \<and> fst (dynamics_get_status (snd (dynamics_get_status d))) = fst (dynamics_get_status d)
   \<and> snd (get_telemetry tw t1) = tw
   \<and> fst (get_telemetry (snd (get_telemetry tw t1)) t2)
       = map_sum id (\<lambda>s. s\<lparr>snap_timestamp := t2\<rparr>) (fst (get_telemetry tw t1))
   \<and> fst (get_telemetry (snd (get_telemetry tw t1)) t1) = fst (get_telemetry tw t1)"
proof -
  have s: "snd (get_telemetry tw t) = tw" for t
    by (simp add: get_telemetry_def motor_get_status_def battery_get_status_def
          dynamics_get_status_def Let_def)
  have f: "fst (get_telemetry tw t2)
       = map_sum id (\<lambda>s. s\<lparr>snap_timestamp := t2\<rparr>) (fst (get_telemetry tw t1))"
    by (simp add: get_telemetry_def motor_get_status_def battery_get_status_def
          dynamics_get_status_def Let_def)
  show ?thesis
    using f by (simp add: s motor_get_status_def battery_get_status_def
                  dynamics_get_status_def)
qed

section \<open>The Urban scenario\<close>












section \<open>Unknown scenarios\<close>

lemma get_telemetry_error: "get_telemetry tw now = (Inl e, s) \<Longrightarrow> e = ZeroDivisionError"
  by (auto simp: get_telemetry_def battery_get_status_def motor_get_status_def
        dynamics_get_status_def Let_def split: if_splits)

lemma log_telemetry_error: "log_telemetry tw now = Raised e s \<Longrightarrow> e = ZeroDivisionError"
  by (auto simp: log_telemetry_def split: prod.splits sum.splits dest: get_telemetry_error)

lemma run_iteration_error:
  "run_iteration sc ts li env k s = Raised e s' \<Longrightarrow> e = ZeroDivisionError"
  unfolding run_iteration_def Let_def
  by (auto split: prod.splits outcome.splits if_splits sum.splits
        dest: step_error log_telemetry_error get_telemetry_error)

lemma run_steps_error:
  assumes "\<And>k s e s'. body k s = Raised e s' \<Longrightarrow> e = ZeroDivisionError"
  shows "run_steps body ks s = Raised e s' \<Longrightarrow> e = ZeroDivisionError"
proof (induction ks arbitrary: s)
  case Nil
  then show ?case by simp
next
  case (Cons k ks)
  show ?case
  proof (cases "body k s")
    case (Done s1)
    with Cons show ?thesis by simp
  next
    case (Raised e1 s1)
    with Cons.prems have "e = e1" by simp
    with Raised assms show ?thesis by blast
  qed
qed

lemma run_scenario_value_error:
  assumes "run_scenario eng scenario_name li envs = Raised (ValueError msg) s"
  shows "scenarios eng scenario_name = None"
proof (rule ccontr)
  assume "scenarios eng scenario_name \<noteq> None"
  then obtain sc where sc: "scenarios eng scenario_name = Some sc"
    by blast
  let ?loop = "run_steps (\<lambda>k. run_iteration sc (time_step eng) li (envs k) k)
                 [0..<nat (py_int (duration_s sc / time_step eng))] (digital_twin eng, 0)"
  have "?loop = Raised (ValueError msg) s' \<Longrightarrow> False" for s'
    using run_steps_error [of "\<lambda>k. run_iteration sc (time_step eng) li (envs k) k"]
      run_iteration_error by blast
  with assms sc show False
    by (auto simp: run_scenario_def Let_def split: if_splits outcome.splits prod.splits)
qed

lemma registered_names:
  "scenarios (SimulationEngine_init tw ts) scenario_name = None
     \<longleftrightarrow> scenario_name \<notin> {''urban'', ''highway'', ''aggressive'', ''eco''}"
  by (simp add: SimulationEngine_init_def)

text \<open>
  Claim C8: on an engine as its constructor builds it, \<open>run_scenario\<close> fails with the
  unknown-scenario error (the \<open>ValueError\<close>) exactly when the name is not one of
  \<open>urban\<close>, \<open>highway\<close>, \<open>aggressive\<close>, \<open>eco\<close>; it then leaves the engine, hence the twin
  and its telemetry log, unchanged.
\<close>

theorem run_scenario_unknown:
  "((\<exists>msg s. run_scenario (SimulationEngine_init tw ts) scenario_name log_interval envs
               = Raised (ValueError msg) s)
      \<longleftrightarrow> scenario_name \<notin> {''urban'', ''highway'', ''aggressive'', ''eco''})
   \<and> (scenario_name \<notin> {''urban'', ''highway'', ''aggressive'', ''eco''} \<longrightarrow>
        run_scenario (SimulationEngine_init tw ts) scenario_name log_interval envs
          = Raised (ValueError (''Unknown scenario: '' @ scenario_name))
              (SimulationEngine_init tw ts))"
proof -
  have a: "scenario_name \<notin> {''urban'', ''highway'', ''aggressive'', ''eco''} \<Longrightarrow>
        run_scenario (SimulationEngine_init tw ts) scenario_name log_interval envs
          = Raised (ValueError (''Unknown scenario: '' @ scenario_name))
              (SimulationEngine_init tw ts)"
    using registered_names [of tw ts scenario_name] by (simp add: run_scenario_def)
  have b: "run_scenario (SimulationEngine_init tw ts) scenario_name log_interval envs
               = Raised (ValueError msg) s
        \<Longrightarrow> scenario_name \<notin> {''urban'', ''highway'', ''aggressive'', ''eco''}" for msg s
    using run_scenario_value_error [of "SimulationEngine_init tw ts" scenario_name log_interval envs msg s]
      registered_names [of tw ts scenario_name] by simp
  show ?thesis
    using a b by blast
qed

theorem run_scenario_unknown_witness:
  "run_scenario (SimulationEngine_init (DigitalTwin_init spec_config epoch_env) 0.1)
       ''offroad'' 10 epoch_loop_env
     = Raised (ValueError ''Unknown scenario: offroad'')
         (SimulationEngine_init (DigitalTwin_init spec_config epoch_env) 0.1)"
  using run_scenario_unknown [of "DigitalTwin_init spec_config epoch_env" "0.1" "''offroad''" 10
      epoch_loop_env]
  by simp


section \<open>A full Urban run\<close>


























end
